theory Spec2Isabelle
  imports Main
begin

section \<open>Python strings\<close>

text \<open>
  A Python \<open>str\<close> is a sequence of Unicode code points; it is modelled as the list of
  their numbers. \<open>asc\<close> reads an ASCII literal, so \<open>asc ''[OK]''\<close> is the Python
  string \<open>"[OK]"\<close>.
\<close>

type_synonym pystr = "nat list"

definition asc :: "string \<Rightarrow> pystr" where
  "asc s = map of_char s"

text \<open>
  \<open>str.isspace\<close> of one code point: the white-space code points of CPython
  (\<open>_PyUnicode_IsWhitespace\<close>), which are what \<open>str.strip()\<close> removes.
\<close>

definition isspace :: "nat \<Rightarrow> bool" where
  "isspace c \<longleftrightarrow>
     (9 \<le> c \<and> c \<le> 13) \<or> (28 \<le> c \<and> c \<le> 32) \<or> c = 133 \<or> c = 160 \<or> c = 5760 \<or>
     (8192 \<le> c \<and> c \<le> 8202) \<or> c = 8232 \<or> c = 8233 \<or> c = 8239 \<or> c = 8287 \<or> c = 12288"

definition strip :: "pystr \<Rightarrow> pystr" where
  "strip s = rev (dropWhile isspace (rev (dropWhile isspace s)))"

text \<open>
  \<open>str.lower()\<close>. It is exact on ASCII. Outside ASCII only the two code points whose
  lower-case form contains an ASCII letter are spelled out (KELVIN SIGN gives \<open>k\<close>,
  LATIN CAPITAL LETTER I WITH DOT ABOVE gives \<open>i\<close> and a combining dot); every other
  code point keeps a non-ASCII image, which is all that a comparison with an ASCII
  string can see, and is left as it is.
\<close>

definition lower_cp :: "nat \<Rightarrow> pystr" where
  "lower_cp c =
     (if 65 \<le> c \<and> c \<le> 90 then [c + 32]
      else if c = 8490 then [107]
      else if c = 304 then [105, 775]
      else [c])"

definition lower :: "pystr \<Rightarrow> pystr" where
  "lower s = concat (map lower_cp s)"

text \<open>\<open>sep.join(parts)\<close>.\<close>

fun join :: "pystr \<Rightarrow> pystr list \<Rightarrow> pystr" where
  "join sep [] = []"
| "join sep [x] = x"
| "join sep (x # y # ys) = x @ sep @ join sep (y # ys)"

section \<open>Message parts and their \<open>str()\<close>\<close>

text \<open>
  The emission operations take arbitrary objects and render each with \<open>str(m)\<close>.
  \<open>PObj t\<close> stands for any other object, given by the text its \<open>__str__\<close> returns.
\<close>

datatype pyobj = PStr pystr | PInt int | PBool bool | PNone | PObj pystr

fun digits10 :: "nat \<Rightarrow> pystr" where
  "digits10 n = (if n < 10 then [48 + n] else digits10 (n div 10) @ [48 + n mod 10])"

declare digits10.simps [simp del]

definition str_int :: "int \<Rightarrow> pystr" where
  "str_int i = (if i < 0 then 45 # digits10 (nat (- i)) else digits10 (nat i))"

fun str_py :: "pyobj \<Rightarrow> pystr" where
  "str_py (PStr s) = s"
| "str_py (PInt i) = str_int i"
| "str_py (PBool b) = (if b then asc ''True'' else asc ''False'')"
| "str_py PNone = asc ''None''"
| "str_py (PObj t) = t"

section \<open>Colour codes (class \<open>bcolors\<close>)\<close>

definition OKBLUE :: pystr where "OKBLUE = 27 # asc ''[94m''"
definition OKGREEN :: pystr where "OKGREEN = 27 # asc ''[92m''"
definition FAIL :: pystr where "FAIL = 27 # asc ''[91m''"
definition ENDC :: pystr where "ENDC = 27 # asc ''[0m''"
definition WARNING_ORANGE :: pystr where "WARNING_ORANGE = 27 # asc ''[38;5;208m''"
definition DIM :: pystr where "DIM = 27 # asc ''[2m''"
definition BOLD :: pystr where "BOLD = 27 # asc ''[1m''"
definition CYAN :: pystr where "CYAN = 27 # asc ''[96m''"
definition GRAY :: pystr where "GRAY = 27 # asc ''[90m''"

section \<open>Styles\<close>

text \<open>
  The frozen dataclass \<open>LogStyle\<close>. The icon literals are the code points of the string
  literals as they stand in the source file.
\<close>

record LogStyle =
  log_label :: pystr
  ok_label :: pystr
  info_label :: pystr
  warn_label :: pystr
  err_label :: pystr
  log_icon :: pystr
  ok_icon :: pystr
  info_icon :: pystr
  warn_icon :: pystr
  err_icon :: pystr
  log_color :: pystr
  ok_color :: pystr
  info_color :: pystr
  warn_color :: pystr
  err_color :: pystr

text \<open>\<open>LogStyle()\<close>: every field at its default.\<close>

definition LogStyle_new :: LogStyle where
  "LogStyle_new =
     \<lparr> log_label = asc ''[Log]'', ok_label = asc ''[OK]'', info_label = asc ''[Info]'',
       warn_label = asc ''[Warn]'', err_label = asc ''[Error]'',
       log_icon = [226, 8364, 162], ok_icon = [226, 339, 8230],
       info_icon = [226, 8222, 185, 239, 184], warn_icon = [226, 353, 160, 239, 184],
       err_icon = [226, 338],
       log_color = DIM, ok_color = OKGREEN, info_color = OKBLUE,
       warn_color = WARNING_ORANGE, err_color = FAIL \<rparr>"

text \<open>The entries of \<open>STYLES\<close>, each the constructor call of the source.\<close>

definition STYLES_default :: LogStyle where
  "STYLES_default = LogStyle_new"

definition STYLES_classic :: LogStyle where
  "STYLES_classic =
     LogStyle_new \<lparr> log_icon := [], ok_icon := [], info_icon := [], warn_icon := [],
       err_icon := [],
       log_label := asc ''[LOG]'', ok_label := asc ''[OK]'', info_label := asc ''[INFO]'',
       warn_label := asc ''[WARN]'', err_label := asc ''[ERR]'' \<rparr>"

definition STYLES_minimal :: LogStyle where
  "STYLES_minimal =
     LogStyle_new \<lparr> log_icon := [226, 8364, 162], ok_icon := [226, 339, 8220],
       info_icon := asc ''i'', warn_icon := asc ''!'', err_icon := asc ''x'',
       log_label := [], ok_label := [], info_label := [], warn_label := [],
       err_label := [],
       log_color := GRAY, info_color := GRAY, warn_color := WARNING_ORANGE,
       err_color := FAIL \<rparr>"

definition STYLES_cli :: LogStyle where
  "STYLES_cli =
     LogStyle_new \<lparr> log_icon := [226, 8364, 186], ok_icon := [226, 339, 8221],
       info_icon := [226, 8222, 185], warn_icon := [226, 8211, 178],
       err_icon := [226, 339, 8211],
       log_label := asc ''[step]'', ok_label := asc ''[ok]'', info_label := asc ''[info]'',
       warn_label := asc ''[warn]'', err_label := asc ''[error]'',
       log_color := DIM, ok_color := OKGREEN, info_color := CYAN,
       warn_color := WARNING_ORANGE, err_color := FAIL \<rparr>"

definition STYLES_emoji :: LogStyle where
  "STYLES_emoji =
     LogStyle_new \<lparr> log_icon := [240, 376, 8220], ok_icon := [226, 339, 8230],
       info_icon := [240, 376, 167, 160], warn_icon := [226, 353, 160, 239, 184],
       err_icon := [240, 376, 8217, 165],
       log_label := asc ''[Log]'', ok_label := asc ''[OK]'', info_label := asc ''[Info]'',
       warn_label := asc ''[Warn]'', err_label := asc ''[Error]'' \<rparr>"

definition STYLES_plain :: LogStyle where
  "STYLES_plain =
     LogStyle_new \<lparr> log_icon := [], ok_icon := [], info_icon := [], warn_icon := [],
       err_icon := [],
       log_color := [], ok_color := [], info_color := [], warn_color := [],
       err_color := [] \<rparr>"

text \<open>The dictionary \<open>STYLES\<close>.\<close>

definition STYLES :: "pystr \<rightharpoonup> LogStyle" where
  "STYLES =
     map_of
      [(asc ''default'', STYLES_default),
       (asc ''classic'', STYLES_classic),
       (asc ''minimal'', STYLES_minimal),
       (asc ''cli'', STYLES_cli),
       (asc ''emoji'', STYLES_emoji),
       (asc ''plain'', STYLES_plain)]"

section \<open>Errors and dictionary access\<close>

datatype error = KeyError | TypeError

text \<open>\<open>d[k]\<close> raises \<open>KeyError\<close> on a missing key; \<open>d.get(k, dflt)\<close> does not.\<close>

definition getitem :: "('k \<rightharpoonup> 'v) \<Rightarrow> 'k \<Rightarrow> error + 'v" where
  "getitem d k = (case d k of None \<Rightarrow> Inl KeyError | Some v \<Rightarrow> Inr v)"

definition dict_get :: "('k \<rightharpoonup> 'v) \<Rightarrow> 'k \<Rightarrow> 'v \<Rightarrow> 'v" where
  "dict_get d k dflt = (case d k of None \<Rightarrow> dflt | Some v \<Rightarrow> v)"

text \<open>
  \<open>dataclasses.replace(base, **overrides)\<close>: a new value with the named fields
  changed; a keyword that is no field of the dataclass raises \<open>TypeError\<close>. The
  keyword arguments are the list of their (name, value) pairs.
\<close>

definition set_field :: "pystr \<Rightarrow> pystr \<Rightarrow> LogStyle \<Rightarrow> LogStyle option" where
  "set_field k v s =
     (if k = asc ''log_label'' then Some (s\<lparr>log_label := v\<rparr>)
      else if k = asc ''ok_label'' then Some (s\<lparr>ok_label := v\<rparr>)
      else if k = asc ''info_label'' then Some (s\<lparr>info_label := v\<rparr>)
      else if k = asc ''warn_label'' then Some (s\<lparr>warn_label := v\<rparr>)
      else if k = asc ''err_label'' then Some (s\<lparr>err_label := v\<rparr>)
      else if k = asc ''log_icon'' then Some (s\<lparr>log_icon := v\<rparr>)
      else if k = asc ''ok_icon'' then Some (s\<lparr>ok_icon := v\<rparr>)
      else if k = asc ''info_icon'' then Some (s\<lparr>info_icon := v\<rparr>)
      else if k = asc ''warn_icon'' then Some (s\<lparr>warn_icon := v\<rparr>)
      else if k = asc ''err_icon'' then Some (s\<lparr>err_icon := v\<rparr>)
      else if k = asc ''log_color'' then Some (s\<lparr>log_color := v\<rparr>)
      else if k = asc ''ok_color'' then Some (s\<lparr>ok_color := v\<rparr>)
      else if k = asc ''info_color'' then Some (s\<lparr>info_color := v\<rparr>)
      else if k = asc ''warn_color'' then Some (s\<lparr>warn_color := v\<rparr>)
      else if k = asc ''err_color'' then Some (s\<lparr>err_color := v\<rparr>)
      else None)"

fun replace :: "LogStyle \<Rightarrow> (pystr \<times> pystr) list \<Rightarrow> error + LogStyle" where
  "replace base [] = Inr base"
| "replace base ((k, v) # changes) =
     (case set_field k v base of
        None \<Rightarrow> Inl TypeError
      | Some base' \<Rightarrow> replace base' changes)"

definition get_style :: "pystr \<Rightarrow> (pystr \<times> pystr) list \<Rightarrow> error + LogStyle" where
  "get_style name overrides =
     (case getitem STYLES (asc ''default'') of
        Inl e \<Rightarrow> Inl e
      | Inr dflt \<Rightarrow>
          (let base = dict_get STYLES name dflt
           in if overrides \<noteq> [] then replace base overrides else Inr base))"

section \<open>Styles as objects\<close>

text \<open>
  \<open>get_style\<close> above computes with the values of styles. Whether a call leaves the
  registered presets alone is a matter of objects, so the same code is given once more
  with their identities. \<open>objs\<close> maps a reference to the \<open>LogStyle\<close> stored there,
  \<open>fresh\<close> is the next reference not yet allocated, and \<open>registry\<close> is the dictionary
  \<open>STYLES\<close>, which binds a name to a reference.
\<close>

record module =
  objs :: "nat \<Rightarrow> LogStyle"
  fresh :: nat
  registry :: "pystr \<rightharpoonup> nat"

text \<open>
  The state once the module is loaded: the six presets at references 0 to 5. The
  references from \<open>fresh\<close> on are not allocated, and what \<open>objs\<close> holds there is of no
  account.
\<close>

definition module_init :: module where
  "module_init =
     \<lparr> objs = (\<lambda>r. LogStyle_new)
         (0 := STYLES_default, 1 := STYLES_classic, 2 := STYLES_minimal, 3 := STYLES_cli,
          4 := STYLES_emoji, 5 := STYLES_plain),
       fresh = 6,
       registry =
         map_of
          [(asc ''default'', 0), (asc ''classic'', 1), (asc ''minimal'', 2), (asc ''cli'', 3),
           (asc ''emoji'', 4), (asc ''plain'', 5)] \<rparr>"

text \<open>
  \<open>dataclasses.replace\<close> builds a new object from the fields of \<open>base\<close> and the changes
  and leaves \<open>base\<close> as it is.
\<close>

definition replace_obj ::
  "nat \<Rightarrow> (pystr \<times> pystr) list \<Rightarrow> module \<Rightarrow> error + (nat \<times> module)" where
  "replace_obj base changes m =
     (case replace (objs m base) changes of
        Inl e \<Rightarrow> Inl e
      | Inr v \<Rightarrow>
          Inr (fresh m, m\<lparr>objs := (objs m)(fresh m := v), fresh := Suc (fresh m)\<rparr>))"

text \<open>
  \<open>get_style\<close>: without overrides the result is the registered object itself, with
  overrides the object that \<open>replace\<close> built.
\<close>

definition get_style_obj ::
  "pystr \<Rightarrow> (pystr \<times> pystr) list \<Rightarrow> module \<Rightarrow> error + (nat \<times> module)" where
  "get_style_obj name overrides m =
     (case getitem (registry m) (asc ''default'') of
        Inl e \<Rightarrow> Inl e
      | Inr dflt \<Rightarrow>
          (let base = dict_get (registry m) name dflt
           in if overrides \<noteq> [] then replace_obj base overrides m else Inr (base, m)))"

section \<open>Streams\<close>

text \<open>
  A stream is an object the logger only holds a reference to. The store maps a
  reference to the stream's state: what \<open>isatty()\<close> does, the texts written so far in
  order, and how many of them a \<open>flush()\<close> has pushed out. \<open>Raises\<close> is an \<open>isatty()\<close>
  that raises an \<open>Exception\<close>, as a stream without the method does (\<open>AttributeError\<close>).
  \<open>write\<close> and \<open>flush\<close> are those of a stream that takes the text: the logger has no
  handler around them, and a failure of the stream itself is outside this model.
\<close>

datatype isatty_outcome = Returns bool | Raises

record stream =
  isatty_result :: isatty_outcome
  written :: "pystr list"
  flushed :: nat

type_synonym store = "nat \<Rightarrow> stream"

definition stream_write :: "nat \<Rightarrow> pystr \<Rightarrow> store \<Rightarrow> store" where
  "stream_write h s w = w(h := (w h)\<lparr>written := written (w h) @ [s]\<rparr>)"

definition stream_flush :: "nat \<Rightarrow> store \<Rightarrow> store" where
  "stream_flush h w = w(h := (w h)\<lparr>flushed := length (written (w h))\<rparr>)"

text \<open>\<open>_is_tty\<close>: an exception of \<open>isatty()\<close> is caught and answered \<open>False\<close>.\<close>

definition is_tty :: "stream \<Rightarrow> bool" where
  "is_tty s = (case isatty_result s of Returns b \<Rightarrow> b | Raises \<Rightarrow> False)"

section \<open>The logger\<close>

text \<open>
  The \<open>style\<close> argument of the constructor: a \<open>str\<close>, a \<open>LogStyle\<close>, or anything else,
  \<open>None\<close> being the default.
\<close>

datatype StyleArg = StyleName pystr | StyleValue LogStyle | StyleNone

record Log =
  debug :: bool
  style :: LogStyle
  use_color :: bool
  use_icons :: bool
  out :: nat
  err_stream :: nat

definition getenv :: "(pystr \<rightharpoonup> pystr) \<Rightarrow> pystr \<Rightarrow> pystr \<Rightarrow> pystr" where
  "getenv env k dflt = (case env k of None \<Rightarrow> dflt | Some v \<Rightarrow> v)"

text \<open>
  \<open>Log.__init__\<close>. \<open>env\<close> is the process environment and \<open>w\<close> the store in which the
  two streams live. The \<open>verbose\<close> argument is taken and not used.
\<close>

definition Log_init ::
  "bool \<Rightarrow> bool \<Rightarrow> bool \<Rightarrow> bool \<Rightarrow> StyleArg \<Rightarrow> nat \<Rightarrow> nat \<Rightarrow> (pystr \<rightharpoonup> pystr) \<Rightarrow> store
     \<Rightarrow> error + Log" where
  "Log_init debug' verbose use_color' use_icons' style' stream_out stream_err env w =
     (let d = (debug' \<or>
               lower (getenv env (asc ''DEBUG_LOGS'') []) \<in> {asc ''1'', asc ''true'', asc ''yes''})
      in case (case style' of
                 StyleName name \<Rightarrow> get_style name []
               | StyleValue s \<Rightarrow> Inr s
               | StyleNone \<Rightarrow> getitem STYLES (asc ''default'')) of
           Inl e \<Rightarrow> Inl e
         | Inr s \<Rightarrow>
             Inr \<lparr> debug = d, style = s,
                   use_color = (use_color' \<and> is_tty (w stream_out)),
                   use_icons = (use_icons' \<and> is_tty (w stream_out)),
                   out = stream_out, err_stream = stream_err \<rparr>)"

definition Log_fmt :: "Log \<Rightarrow> pyobj list \<Rightarrow> pystr" where
  "Log_fmt self msg = join (asc '' '') (map str_py msg)"

definition Log_prefix :: "Log \<Rightarrow> pystr \<Rightarrow> pystr \<Rightarrow> pystr" where
  "Log_prefix self icon label =
     (let label = strip label
      in if use_icons self \<and> icon \<noteq> [] then strip (icon @ asc '' '' @ label) else label)"

definition Log_write :: "Log \<Rightarrow> nat \<Rightarrow> pystr \<Rightarrow> pystr \<Rightarrow> pyobj list \<Rightarrow> store \<Rightarrow> store" where
  "Log_write self strm prefix color msg w =
     (let text = Log_fmt self msg;
          line = (if prefix \<noteq> [] then prefix @ asc '' '' @ text else text);
          w' = (if use_color self \<and> color \<noteq> []
                then stream_write strm (color @ line @ ENDC @ [10]) w
                else stream_write strm (line @ [10]) w)
      in stream_flush strm w')"

definition Log_log :: "Log \<Rightarrow> pyobj list \<Rightarrow> store \<Rightarrow> store" where
  "Log_log self msg w =
     (if debug self
      then Log_write self (out self)
             (Log_prefix self (log_icon (style self)) (log_label (style self)))
             (log_color (style self)) msg w
      else w)"

definition Log_ok :: "Log \<Rightarrow> pyobj list \<Rightarrow> store \<Rightarrow> store" where
  "Log_ok self msg w =
     Log_write self (out self)
       (Log_prefix self (ok_icon (style self)) (ok_label (style self)))
       (ok_color (style self)) msg w"

definition Log_info :: "Log \<Rightarrow> pyobj list \<Rightarrow> store \<Rightarrow> store" where
  "Log_info self msg w =
     (if debug self
      then Log_write self (out self)
             (Log_prefix self (info_icon (style self)) (info_label (style self)))
             (info_color (style self)) msg w
      else w)"

definition Log_warn :: "Log \<Rightarrow> pyobj list \<Rightarrow> store \<Rightarrow> store" where
  "Log_warn self msg w =
     Log_write self (out self)
       (Log_prefix self (warn_icon (style self)) (warn_label (style self)))
       (warn_color (style self)) msg w"

definition Log_err :: "Log \<Rightarrow> pyobj list \<Rightarrow> store \<Rightarrow> store" where
  "Log_err self msg w =
     Log_write self (err_stream self)
       (Log_prefix self (err_icon (style self)) (err_label (style self)))
       (err_color (style self)) msg w"

section \<open>Observing what a call wrote\<close>

text \<open>The texts stream \<open>h\<close> received between the stores \<open>w\<close> and \<open>w'\<close>.\<close>

definition emitted :: "nat \<Rightarrow> store \<Rightarrow> store \<Rightarrow> pystr list" where
  "emitted h w w' = drop (length (written (w h))) (written (w' h))"

section \<open>Auxiliary notions of the statements\<close>

text \<open>
  The line of a call as it goes out: wrapped in the colour code and the reset code when
  the logger uses colour and the kind has a colour, bare otherwise.
\<close>

definition coloured :: "Log \<Rightarrow> pystr \<Rightarrow> pystr \<Rightarrow> pystr" where
  "coloured L c line = (if use_color L \<and> c \<noteq> [] then c @ line @ ENDC else line)"

text \<open>
  The text of one call of a kind with the given icon, label and colour: the line, made
  of the prefix, one space and the joined message parts, or of the joined parts alone
  when the prefix is empty, with its colour wrapping and the newline.
\<close>

definition line_text :: "Log \<Rightarrow> pystr \<Rightarrow> pystr \<Rightarrow> pystr \<Rightarrow> pyobj list \<Rightarrow> pystr" where
  "line_text L icon label c msg =
     coloured L c
       (if Log_prefix L icon label = [] then Log_fmt L msg
        else Log_prefix L icon label @ asc '' '' @ Log_fmt L msg) @ [10]"

text \<open>
  One call wrote the text \<open>t\<close> to stream \<open>h\<close> and nothing else: \<open>h\<close> holds what it held
  and then \<open>t\<close>, all of it flushed, and every other stream of the store is as it was.
\<close>

definition wrote_only :: "nat \<Rightarrow> pystr \<Rightarrow> store \<Rightarrow> store \<Rightarrow> bool" where
  "wrote_only h t w w' \<longleftrightarrow>
     written (w' h) = written (w h) @ [t] \<and>
     flushed (w' h) = length (written (w' h)) \<and>
     isatty_result (w' h) = isatty_result (w h) \<and>
     w'(h := w h) = w"

text \<open>The number of newline characters of a text: the lines of a text that ends in one.\<close>

definition newlines :: "pystr \<Rightarrow> nat" where
  "newlines t = length (filter (\<lambda>c. c = 10) t)"

text \<open>
  The prefix rule as the specification words it: icon, one space and the label, trimmed
  as a whole, when icons are in use and the icon is not empty; the trimmed label
  otherwise. \<open>Log_prefix\<close> is the rule of the code.
\<close>

definition spec_prefix :: "bool \<Rightarrow> pystr \<Rightarrow> pystr \<Rightarrow> pystr" where
  "spec_prefix icons icon label =
     (if icons \<and> icon \<noteq> [] then strip (icon @ asc '' '' @ label) else strip label)"

text \<open>
  Concrete stores and loggers for the closed instances below: a store of terminals and
  a store of pipes, nothing written yet, and the loggers that the constructor builds
  over them for streams 1 and 2.
\<close>

definition tty_store :: store where
  "tty_store = (\<lambda>h. \<lparr> isatty_result = Returns True, written = [], flushed = 0 \<rparr>)"

definition pipe_store :: store where
  "pipe_store = (\<lambda>h. \<lparr> isatty_result = Returns False, written = [], flushed = 0 \<rparr>)"

definition demo_logger :: Log where
  "demo_logger =
     \<lparr> debug = False, style = STYLES_default, use_color = True, use_icons = True,
       out = 1, err_stream = 2 \<rparr>"

text \<open>
  The line of a logger that uses neither colour nor icons: the trimmed label and one
  space, when the trimmed label is not empty, then the message parts joined by single
  spaces, then the newline.
\<close>

definition bare_line :: "pystr \<Rightarrow> pyobj list \<Rightarrow> pystr" where
  "bare_line label msg =
     (if strip label = [] then join (asc '' '') (map str_py msg)
      else strip label @ asc '' '' @ join (asc '' '') (map str_py msg)) @ [10]"

text \<open>Two strings are equal up to case when their lower-case forms are equal.\<close>

definition ci_equal :: "pystr \<Rightarrow> pystr \<Rightarrow> bool" where
  "ci_equal a b \<longleftrightarrow> lower a = lower b"

definition plain_logger :: Log where
  "plain_logger =
     \<lparr> debug = False, style = STYLES_plain, use_color = True, use_icons = True,
       out = 1, err_stream = 2 \<rparr>"

definition quiet_logger :: Log where
  "quiet_logger =
     \<lparr> debug = True, style = STYLES_default, use_color = False, use_icons = False,
       out = 1, err_stream = 2 \<rparr>"

section \<open>Evaluation lemmas\<close>

lemmas preset_defs =
  STYLES_default_def STYLES_classic_def STYLES_minimal_def STYLES_cli_def STYLES_emoji_def
  STYLES_plain_def LogStyle_new_def

lemma asc_Nil: "asc [] = []"
  by (simp add: asc_def)

lemma asc_Cons: "asc (c # cs) = of_char c # asc cs"
  by (simp add: asc_def)

lemmas asc_simps = asc_Nil asc_Cons

lemma STYLES_lookup:
  "STYLES name =
     (if name = asc ''default'' then Some STYLES_default
      else if name = asc ''classic'' then Some STYLES_classic
      else if name = asc ''minimal'' then Some STYLES_minimal
      else if name = asc ''cli'' then Some STYLES_cli
      else if name = asc ''emoji'' then Some STYLES_emoji
      else if name = asc ''plain'' then Some STYLES_plain
      else None)"
  by (simp add: STYLES_def asc_simps)

lemma getitem_default: "getitem STYLES (asc ''default'') = Inr STYLES_default"
  by (simp add: getitem_def STYLES_lookup asc_simps)

lemma get_style_no_overrides:
  "get_style name [] = Inr (dict_get STYLES name STYLES_default)"
  by (simp add: get_style_def getitem_default)

lemma emitted_write_flush:
  "emitted h w (stream_flush h (stream_write h s w)) = [s]"
  by (simp add: emitted_def stream_flush_def stream_write_def)

lemma emitted_same: "emitted h w w = []"
  by (simp add: emitted_def)

lemma empty_env_not_truthy:
  "lower (getenv Map.empty (asc ''DEBUG_LOGS'') []) \<notin> {asc ''1'', asc ''true'', asc ''yes''}"
  by (simp add: getenv_def lower_def asc_simps)

lemma demo_logger_built:
  "Log_init False False True True StyleNone 1 2 Map.empty tty_store = Inr demo_logger"
  using empty_env_not_truthy
  by (simp add: Log_init_def Let_def getitem_default is_tty_def tty_store_def demo_logger_def)

lemma quiet_logger_built:
  "Log_init True False True True StyleNone 1 2 Map.empty pipe_store = Inr quiet_logger"
  by (simp add: Log_init_def Let_def getitem_default is_tty_def pipe_store_def quiet_logger_def)

section \<open>Style resolution\<close>

text \<open>
  Claim C3. Resolving a name never fails: \<open>get_style name\<close> returns the entry of
  \<open>STYLES\<close> under that name when there is one, which for the six registered names is
  that preset's fixed value, and the entry under \<open>"default"\<close> for every other name.
  The constructor stores this result for a name, the \<open>"default"\<close> preset when no style is
  given, and a style value as it is; it does not fail either.
\<close>

theorem style_resolution:
  "get_style name [] =
     Inr (case STYLES name of Some s \<Rightarrow> s | None \<Rightarrow> STYLES_default) \<and>
   get_style name [] =
     Inr (if name = asc ''default'' then STYLES_default
          else if name = asc ''classic'' then STYLES_classic
          else if name = asc ''minimal'' then STYLES_minimal
          else if name = asc ''cli'' then STYLES_cli
          else if name = asc ''emoji'' then STYLES_emoji
          else if name = asc ''plain'' then STYLES_plain
          else STYLES_default) \<and>
   map_sum id style (Log_init d v uc ui (StyleName name) so se env w) = get_style name [] \<and>
   map_sum id style (Log_init d v uc ui StyleNone so se env w) = Inr STYLES_default \<and>
   map_sum id style (Log_init d v uc ui (StyleValue s) so se env w) = Inr s"
proof -
  have a0: "get_style name [] =
     Inr (case STYLES name of Some s \<Rightarrow> s | None \<Rightarrow> STYLES_default)"
    by (simp add: get_style_no_overrides dict_get_def split: option.split)
  have a: "get_style name [] =
     Inr (if name = asc ''default'' then STYLES_default
          else if name = asc ''classic'' then STYLES_classic
          else if name = asc ''minimal'' then STYLES_minimal
          else if name = asc ''cli'' then STYLES_cli
          else if name = asc ''emoji'' then STYLES_emoji
          else if name = asc ''plain'' then STYLES_plain
          else STYLES_default)"
    by (simp add: get_style_no_overrides dict_get_def STYLES_lookup asc_simps)
  have b: "map_sum id style (Log_init d v uc ui (StyleName name) so se env w) = get_style name []"
    by (simp add: Log_init_def Let_def get_style_no_overrides)
  have c: "map_sum id style (Log_init d v uc ui StyleNone so se env w) = Inr STYLES_default"
    by (simp add: Log_init_def Let_def getitem_default)
  have e: "map_sum id style (Log_init d v uc ui (StyleValue s) so se env w) = Inr s"
    by (simp add: Log_init_def Let_def)
  from a0 a b c e show ?thesis by blast
qed

lemma registry_init:
  "registry module_init name =
     (if name = asc ''default'' then Some 0
      else if name = asc ''classic'' then Some 1
      else if name = asc ''minimal'' then Some 2
      else if name = asc ''cli'' then Some 3
      else if name = asc ''emoji'' then Some 4
      else if name = asc ''plain'' then Some 5
      else None)"
  by (simp add: module_init_def asc_simps)

lemma registry_init_STYLES:
  "map_option (objs module_init) (registry module_init name) = STYLES name"
  by (simp add: registry_init STYLES_lookup) (simp add: module_init_def)

lemma replace_err_label:
  "replace s [(asc ''err_label'', v)] = Inr (s\<lparr>err_label := v\<rparr>)"
  by (simp add: set_field_def asc_simps)

text \<open>The object that the object-level \<open>get_style\<close> returns holds the value of \<open>get_style\<close>.\<close>

lemma get_style_obj_value:
  "map_sum id (\<lambda>(r, m'). objs m' r) (get_style_obj name overrides module_init) =
     get_style name overrides"
proof -
  have d: "getitem (registry module_init) (asc ''default'') = Inr 0"
    by (simp add: getitem_def registry_init)
  have b: "objs module_init (dict_get (registry module_init) name 0) =
      dict_get STYLES name STYLES_default"
    using registry_init_STYLES [of name]
    by (cases "registry module_init name")
       (auto simp add: dict_get_def module_init_def split: option.splits)
  show ?thesis
    by (cases "replace (dict_get STYLES name STYLES_default) overrides")
       (simp_all add: get_style_obj_def get_style_def d getitem_default replace_obj_def b Let_def)
qed

text \<open>
  Claim C4. \<open>get_style("minimal", err_label="BOOM")\<close> has the value of the \<open>minimal\<close>
  preset with \<open>err_label\<close> set to \<open>"BOOM"\<close>. In every state in which \<open>STYLES\<close> binds
  \<open>"default"\<close> and binds \<open>"minimal"\<close> to an allocated object, the call succeeds and
  returns an object whose \<open>err_label\<close> is \<open>"BOOM"\<close> and whose fourteen other fields are
  those of the registered object. It is another object than the registered one; the
  registered object and every other object hold after the call what they held before,
  and \<open>STYLES\<close> binds what it bound.
\<close>

theorem override_minimal:
  assumes "registry m (asc ''default'') = Some d"
    and "registry m (asc ''minimal'') = Some r0"
    and "r0 < fresh m"
  shows "get_style (asc ''minimal'') [(asc ''err_label'', asc ''BOOM'')] =
       Inr (STYLES_minimal\<lparr>err_label := asc ''BOOM''\<rparr>) \<and>
    (\<exists>r m'.
       get_style_obj (asc ''minimal'') [(asc ''err_label'', asc ''BOOM'')] m = Inr (r, m') \<and>
       objs m' r = (objs m r0)\<lparr>err_label := asc ''BOOM''\<rparr> \<and>
       r \<noteq> r0 \<and>
       objs m' r0 = objs m r0 \<and>
       (objs m')(r := objs m r) = objs m \<and>
       registry m' = registry m)"
proof -
  have v: "get_style (asc ''minimal'') [(asc ''err_label'', asc ''BOOM'')] =
     Inr (STYLES_minimal\<lparr>err_label := asc ''BOOM''\<rparr>)"
  proof -
    have "get_style (asc ''minimal'') [(asc ''err_label'', asc ''BOOM'')] =
        replace (dict_get STYLES (asc ''minimal'') STYLES_default)
          [(asc ''err_label'', asc ''BOOM'')]"
      by (simp add: get_style_def getitem_default)
    moreover have "dict_get STYLES (asc ''minimal'') STYLES_default = STYLES_minimal"
      by (simp add: dict_get_def STYLES_lookup asc_simps)
    ultimately show ?thesis
      by (simp add: replace_err_label del: replace.simps)
  qed
  let ?v = "(objs m r0)\<lparr>err_label := asc ''BOOM''\<rparr>"
  let ?m' = "m\<lparr>objs := (objs m)(fresh m := ?v), fresh := Suc (fresh m)\<rparr>"
  have "get_style_obj (asc ''minimal'') [(asc ''err_label'', asc ''BOOM'')] m =
      Inr (fresh m, ?m')"
    using assms(1,2)
    by (simp add: get_style_obj_def getitem_def dict_get_def replace_obj_def replace_err_label
        del: replace.simps)
  moreover have "fresh m \<noteq> r0"
    using assms(3) by simp
  ultimately have "\<exists>r m'.
       get_style_obj (asc ''minimal'') [(asc ''err_label'', asc ''BOOM'')] m = Inr (r, m') \<and>
       objs m' r = (objs m r0)\<lparr>err_label := asc ''BOOM''\<rparr> \<and>
       r \<noteq> r0 \<and>
       objs m' r0 = objs m r0 \<and>
       (objs m')(r := objs m r) = objs m \<and>
       registry m' = registry m"
    by (intro exI [of _ "fresh m"] exI [of _ ?m']) simp
  with v show ?thesis by blast
qed

text \<open>
  In the state of the loaded module the registered object is the \<open>minimal\<close> preset: the
  result is the preset with \<open>err_label\<close> \<open>"BOOM"\<close>, and \<open>STYLES["minimal"]\<close> is still the
  preset.
\<close>

theorem override_minimal_witness:
  "registry module_init (asc ''default'') = Some 0 \<and>
   registry module_init (asc ''minimal'') = Some 2 \<and>
   2 < fresh module_init \<and>
   objs module_init 2 = STYLES_minimal \<and>
   (\<exists>r m'.
     get_style_obj (asc ''minimal'') [(asc ''err_label'', asc ''BOOM'')] module_init =
       Inr (r, m') \<and>
     objs m' r = STYLES_minimal\<lparr>err_label := asc ''BOOM''\<rparr> \<and>
     r \<noteq> 2 \<and>
     objs m' 2 = STYLES_minimal \<and>
     registry m' (asc ''minimal'') = Some 2)"
proof -
  have a: "registry module_init (asc ''default'') = Some 0"
    and b: "registry module_init (asc ''minimal'') = Some 2"
    by (simp_all add: registry_init asc_simps)
  have c: "2 < fresh module_init" and o: "objs module_init 2 = STYLES_minimal"
    by (simp_all add: module_init_def)
  from override_minimal [OF a b c] o b a c show ?thesis
    by auto
qed

section \<open>Lines as written\<close>

lemma Log_write_emitted:
  "emitted h w (Log_write L h p c msg w) =
     [coloured L c (if p \<noteq> [] then p @ asc '' '' @ Log_fmt L msg else Log_fmt L msg) @ [10]]"
  by (simp add: Log_write_def Let_def coloured_def emitted_write_flush)

lemma Log_fmt_update [simp]:
  "Log_fmt (L\<lparr>style := s\<rparr>) msg = Log_fmt L msg"
  "Log_fmt (L\<lparr>debug := d\<rparr>) msg = Log_fmt L msg"
  "Log_fmt (L\<lparr>use_color := b\<rparr>) msg = Log_fmt L msg"
  "Log_fmt (L\<lparr>use_icons := b\<rparr>) msg = Log_fmt L msg"
  by (simp_all add: Log_fmt_def)

lemma strip_labels:
  "strip (asc ''[Log]'') = asc ''[Log]''"
  "strip (asc ''[OK]'') = asc ''[OK]''"
  "strip (asc ''[Info]'') = asc ''[Info]''"
  "strip (asc ''[Warn]'') = asc ''[Warn]''"
  "strip (asc ''[Error]'') = asc ''[Error]''"
  by (simp_all add: strip_def isspace_def asc_simps)

section \<open>The debug gate\<close>

lemma newlines_append: "newlines (a @ b) = newlines a + newlines b"
  by (simp add: newlines_def)

lemma newlines_consts:
  "newlines [] = 0" "newlines [10] = 1" "newlines (asc '' '') = 0" "newlines ENDC = 0"
  by (simp_all add: newlines_def ENDC_def asc_simps)

lemma newlines_join:
  "newlines (join (asc '' '') xs) = sum_list (map newlines xs)"
  by (induction "asc '' ''" xs rule: join.induct)
     (simp_all add: newlines_append newlines_consts)

lemma Log_write_wrote_only:
  "wrote_only h
     (coloured L c (if p = [] then Log_fmt L msg else p @ asc '' '' @ Log_fmt L msg) @ [10])
     w (Log_write L h p c msg w)"
  by (simp add: wrote_only_def Log_write_def Let_def coloured_def stream_write_def
      stream_flush_def)

lemma Log_prefix_debug [simp]: "Log_prefix (L\<lparr>debug := d\<rparr>) icon label = Log_prefix L icon label"
  by (simp add: Log_prefix_def)

lemma coloured_debug [simp]: "coloured (L\<lparr>debug := d\<rparr>) c t = coloured L c t"
  by (simp add: coloured_def)

text \<open>
  Claim C1, amended. With \<open>debug\<close> false, \<open>log\<close> and \<open>info\<close> leave the whole store as it
  was: nothing is written to any stream. With \<open>debug\<close> true they make exactly one write
  to the out stream, of the text of their kind. \<open>ok\<close> and \<open>warn\<close> always make exactly one
  write to the out stream and \<open>err\<close> exactly one write to the err stream, whatever
  \<open>debug\<close> is, and no call touches another stream. The text written ends in one newline
  and has one more for each newline in the prefix, in the message parts and in the
  colour code when it is used: it is exactly one line when these contain no newline.
\<close>

theorem debug_gate:
  "Log_log (L\<lparr>debug := False\<rparr>) msg w = w \<and>
   Log_info (L\<lparr>debug := False\<rparr>) msg w = w \<and>
   wrote_only (out L)
     (line_text L (log_icon (style L)) (log_label (style L)) (log_color (style L)) msg)
     w (Log_log (L\<lparr>debug := True\<rparr>) msg w) \<and>
   wrote_only (out L)
     (line_text L (info_icon (style L)) (info_label (style L)) (info_color (style L)) msg)
     w (Log_info (L\<lparr>debug := True\<rparr>) msg w) \<and>
   wrote_only (out L)
     (line_text L (ok_icon (style L)) (ok_label (style L)) (ok_color (style L)) msg)
     w (Log_ok L msg w) \<and>
   wrote_only (out L)
     (line_text L (warn_icon (style L)) (warn_label (style L)) (warn_color (style L)) msg)
     w (Log_warn L msg w) \<and>
   wrote_only (err_stream L)
     (line_text L (err_icon (style L)) (err_label (style L)) (err_color (style L)) msg)
     w (Log_err L msg w) \<and>
   newlines (line_text L icon label c msg) =
     1 + newlines (Log_prefix L icon label) + newlines (Log_fmt L msg) +
     (if use_color L \<and> c \<noteq> [] then newlines c else 0) \<and>
   newlines (Log_fmt L msg) = sum_list (map (\<lambda>m. newlines (str_py m)) msg)"
proof -
  have a: "Log_log (L\<lparr>debug := False\<rparr>) msg w = w"
    by (simp add: Log_log_def)
  have b: "Log_info (L\<lparr>debug := False\<rparr>) msg w = w"
    by (simp add: Log_info_def)
  have c: "wrote_only (out L)
     (line_text L (log_icon (style L)) (log_label (style L)) (log_color (style L)) msg)
     w (Log_log (L\<lparr>debug := True\<rparr>) msg w)"
    by (simp add: Log_log_def line_text_def wrote_only_def Log_write_def Let_def coloured_def
        stream_write_def stream_flush_def Log_fmt_def)
  have d: "wrote_only (out L)
     (line_text L (info_icon (style L)) (info_label (style L)) (info_color (style L)) msg)
     w (Log_info (L\<lparr>debug := True\<rparr>) msg w)"
    by (simp add: Log_info_def line_text_def wrote_only_def Log_write_def Let_def coloured_def
        stream_write_def stream_flush_def Log_fmt_def)
  have e: "wrote_only (out L)
     (line_text L (ok_icon (style L)) (ok_label (style L)) (ok_color (style L)) msg)
     w (Log_ok L msg w)"
    by (simp add: Log_ok_def line_text_def Log_write_wrote_only)
  have f: "wrote_only (out L)
     (line_text L (warn_icon (style L)) (warn_label (style L)) (warn_color (style L)) msg)
     w (Log_warn L msg w)"
    by (simp add: Log_warn_def line_text_def Log_write_wrote_only)
  have g: "wrote_only (err_stream L)
     (line_text L (err_icon (style L)) (err_label (style L)) (err_color (style L)) msg)
     w (Log_err L msg w)"
    by (simp add: Log_err_def line_text_def Log_write_wrote_only)
  have h: "newlines (line_text L icon label c msg) =
     1 + newlines (Log_prefix L icon label) + newlines (Log_fmt L msg) +
     (if use_color L \<and> c \<noteq> [] then newlines c else 0)"
    by (simp add: line_text_def coloured_def newlines_append newlines_consts)
  have i: "newlines (Log_fmt L msg) = sum_list (map (\<lambda>m. newlines (str_py m)) msg)"
    by (simp add: Log_fmt_def newlines_join comp_def)
  from a b c d e f g h i show ?thesis by blast
qed

text \<open>
  A message part may hold a newline, and the text written then has more than one line:
  \<open>ok\<close> of the one part \<open>a\<close>, newline, \<open>b\<close> on a logger without colour and icons writes the
  two lines \<open>"[OK] a"\<close> and \<open>"b"\<close>.
\<close>

theorem debug_gate_counterexample:
  "Log_init True False True True StyleNone 1 2 Map.empty pipe_store = Inr quiet_logger \<and>
   emitted 1 pipe_store
     (Log_ok quiet_logger [PStr (asc ''a'' @ [10] @ asc ''b'')] pipe_store) =
     [asc ''[OK] a'' @ [10] @ asc ''b'' @ [10]] \<and>
   newlines (asc ''[OK] a'' @ [10] @ asc ''b'' @ [10]) = 2"
proof -
  have p: "Log_prefix quiet_logger (ok_icon (style quiet_logger)) (ok_label (style quiet_logger)) =
     asc ''[OK]''"
    by (simp add: quiet_logger_def Log_prefix_def Let_def STYLES_default_def LogStyle_new_def
        strip_labels)
  have e: "emitted 1 pipe_store
     (Log_ok quiet_logger [PStr (asc ''a'' @ [10] @ asc ''b'')] pipe_store) =
     [asc ''[OK] a'' @ [10] @ asc ''b'' @ [10]]"
    unfolding Log_ok_def p
    by (simp add: Log_write_emitted coloured_def quiet_logger_def Log_fmt_def asc_simps)
  have n: "newlines (asc ''[OK] a'' @ [10] @ asc ''b'' @ [10]) = 2"
    by (simp add: newlines_def asc_simps)
  show ?thesis
    by (rule conjI [OF quiet_logger_built]) (simp only: e n simp_thms)
qed

section \<open>Prefix and line\<close>

text \<open>
  Claim C2, amended. The prefix is icon, one space and the trimmed label, trimmed as a
  whole, when the logger uses icons and the icon is not empty, and the trimmed label
  otherwise. The line is the prefix, one space and the message parts joined by single
  spaces when the prefix is not empty, and the joined parts alone otherwise; it is
  written with colour wrapping, if any, and a newline. With icon \<open>"!"\<close> and label
  \<open>"[warn]"\<close>, \<open>warn("disk", "full")\<close> without colour writes \<open>"! [warn] disk full"\<close> when
  icons are on and \<open>"[warn] disk full"\<close> when they are off.
\<close>

theorem prefix_and_line:
  "Log_prefix L icon label =
     (if use_icons L \<and> icon \<noteq> [] then strip (icon @ asc '' '' @ strip label) else strip label) \<and>
   emitted h w (Log_write L h p c msg w) =
     [coloured L c (if p \<noteq> [] then p @ asc '' '' @ Log_fmt L msg else Log_fmt L msg) @ [10]] \<and>
   emitted (out L) w
     (Log_warn (L\<lparr>use_icons := True, use_color := False,
                   style := (style L)\<lparr>warn_icon := asc ''!'', warn_label := asc ''[warn]''\<rparr>\<rparr>)
        [PStr (asc ''disk''), PStr (asc ''full'')] w) =
     [asc ''! [warn] disk full'' @ [10]] \<and>
   emitted (out L) w
     (Log_warn (L\<lparr>use_icons := False, use_color := False,
                   style := (style L)\<lparr>warn_icon := asc ''!'', warn_label := asc ''[warn]''\<rparr>\<rparr>)
        [PStr (asc ''disk''), PStr (asc ''full'')] w) =
     [asc ''[warn] disk full'' @ [10]]"
proof -
  have a: "Log_prefix L icon label =
     (if use_icons L \<and> icon \<noteq> [] then strip (icon @ asc '' '' @ strip label) else strip label)"
    by (simp add: Log_prefix_def Let_def)
  have b: "emitted h w (Log_write L h p c msg w) =
     [coloured L c (if p \<noteq> [] then p @ asc '' '' @ Log_fmt L msg else Log_fmt L msg) @ [10]]"
    by (rule Log_write_emitted)
  have s1: "strip (asc ''[warn]'') = asc ''[warn]''"
    by (simp add: strip_def isspace_def asc_simps)
  have s2: "strip (asc ''!'' @ asc '' '' @ asc ''[warn]'') = asc ''! [warn]''"
    by (simp add: strip_def isspace_def asc_simps)
  have f: "Log_fmt L' [PStr (asc ''disk''), PStr (asc ''full'')] = asc ''disk full''" for L'
    by (simp add: Log_fmt_def asc_simps)
  have c: "emitted (out L) w
     (Log_warn (L\<lparr>use_icons := True, use_color := False,
                   style := (style L)\<lparr>warn_icon := asc ''!'', warn_label := asc ''[warn]''\<rparr>\<rparr>)
        [PStr (asc ''disk''), PStr (asc ''full'')] w) =
     [asc ''! [warn] disk full'' @ [10]]"
    by (simp add: Log_warn_def Log_write_emitted Log_prefix_def Let_def s1 s2 f coloured_def)
       (simp add: asc_simps)
  have d: "emitted (out L) w
     (Log_warn (L\<lparr>use_icons := False, use_color := False,
                   style := (style L)\<lparr>warn_icon := asc ''!'', warn_label := asc ''[warn]''\<rparr>\<rparr>)
        [PStr (asc ''disk''), PStr (asc ''full'')] w) =
     [asc ''[warn] disk full'' @ [10]]"
    by (simp add: Log_warn_def Log_write_emitted Log_prefix_def Let_def s1 f coloured_def)
       (simp add: asc_simps)
  from a b c d show ?thesis by blast
qed

text \<open>
  The claim as worded puts the label itself between icon and trimming. The code trims
  the label first: with icon \<open>"!"\<close> and label \<open>" [warn]"\<close> it gives \<open>"! [warn]"\<close>, where
  the worded rule gives \<open>"!  [warn]"\<close> with two spaces.
\<close>

theorem prefix_counterexample:
  "Log_init False False True True StyleNone 1 2 Map.empty tty_store = Inr demo_logger \<and>
   use_icons demo_logger \<and>
   Log_prefix demo_logger (asc ''!'') (asc '' [warn]'') = asc ''! [warn]'' \<and>
   spec_prefix (use_icons demo_logger) (asc ''!'') (asc '' [warn]'') = asc ''!  [warn]'' \<and>
   Log_prefix demo_logger (asc ''!'') (asc '' [warn]'') \<noteq>
     spec_prefix (use_icons demo_logger) (asc ''!'') (asc '' [warn]'')"
  by (rule conjI [OF demo_logger_built])
     (simp add: demo_logger_def Log_prefix_def spec_prefix_def Let_def strip_def isspace_def
        asc_simps)

section \<open>The presets\<close>

text \<open>
  The \<open>classic\<close> preset does not have empty labels and non-empty icons: its \<open>log\<close>
  label is \<open>"[LOG]"\<close> and its \<open>log\<close> icon is empty.
\<close>

theorem presets_counterexample:
  "STYLES (asc ''classic'') = Some STYLES_classic \<and>
   log_label STYLES_classic = asc ''[LOG]'' \<and>
   log_label STYLES_classic \<noteq> [] \<and>
   log_icon STYLES_classic = []"
  by (simp add: STYLES_lookup) (simp add: preset_defs asc_simps)

text \<open>
  Claim C5, amended. \<open>STYLES\<close> has exactly the six names \<open>default\<close>, \<open>classic\<close>,
  \<open>minimal\<close>, \<open>cli\<close>, \<open>emoji\<close>, \<open>plain\<close>, each bound to a \<open>LogStyle\<close>, a record of all
  fifteen fields. \<open>plain\<close> has its five icons and five colours empty and its five labels
  non-empty; \<open>minimal\<close> has its five labels empty and its five icons non-empty;
  \<open>classic\<close> has its five icons empty and its five labels non-empty.
\<close>

theorem presets:
  "dom STYLES = {asc ''default'', asc ''classic'', asc ''minimal'', asc ''cli'', asc ''emoji'',
                 asc ''plain''} \<and>
   STYLES (asc ''default'') = Some STYLES_default \<and>
   STYLES (asc ''classic'') = Some STYLES_classic \<and>
   STYLES (asc ''minimal'') = Some STYLES_minimal \<and>
   STYLES (asc ''cli'') = Some STYLES_cli \<and>
   STYLES (asc ''emoji'') = Some STYLES_emoji \<and>
   STYLES (asc ''plain'') = Some STYLES_plain \<and>
   (log_icon STYLES_plain = [] \<and> ok_icon STYLES_plain = [] \<and> info_icon STYLES_plain = [] \<and>
    warn_icon STYLES_plain = [] \<and> err_icon STYLES_plain = []) \<and>
   (log_color STYLES_plain = [] \<and> ok_color STYLES_plain = [] \<and> info_color STYLES_plain = [] \<and>
    warn_color STYLES_plain = [] \<and> err_color STYLES_plain = []) \<and>
   (log_label STYLES_plain \<noteq> [] \<and> ok_label STYLES_plain \<noteq> [] \<and>
    info_label STYLES_plain \<noteq> [] \<and> warn_label STYLES_plain \<noteq> [] \<and>
    err_label STYLES_plain \<noteq> []) \<and>
   (log_label STYLES_minimal = [] \<and> ok_label STYLES_minimal = [] \<and>
    info_label STYLES_minimal = [] \<and> warn_label STYLES_minimal = [] \<and>
    err_label STYLES_minimal = []) \<and>
   (log_icon STYLES_minimal \<noteq> [] \<and> ok_icon STYLES_minimal \<noteq> [] \<and>
    info_icon STYLES_minimal \<noteq> [] \<and> warn_icon STYLES_minimal \<noteq> [] \<and>
    err_icon STYLES_minimal \<noteq> []) \<and>
   (log_icon STYLES_classic = [] \<and> ok_icon STYLES_classic = [] \<and>
    info_icon STYLES_classic = [] \<and> warn_icon STYLES_classic = [] \<and>
    err_icon STYLES_classic = []) \<and>
   (log_label STYLES_classic \<noteq> [] \<and> ok_label STYLES_classic \<noteq> [] \<and>
    info_label STYLES_classic \<noteq> [] \<and> warn_label STYLES_classic \<noteq> [] \<and>
    err_label STYLES_classic \<noteq> [])"
proof -
  have d: "dom STYLES = {asc ''default'', asc ''classic'', asc ''minimal'', asc ''cli'',
      asc ''emoji'', asc ''plain''}"
    by (auto simp add: STYLES_def)
  have l: "STYLES (asc ''default'') = Some STYLES_default"
    "STYLES (asc ''classic'') = Some STYLES_classic"
    "STYLES (asc ''minimal'') = Some STYLES_minimal"
    "STYLES (asc ''cli'') = Some STYLES_cli"
    "STYLES (asc ''emoji'') = Some STYLES_emoji"
    "STYLES (asc ''plain'') = Some STYLES_plain"
    by (simp_all add: STYLES_lookup asc_simps)
  have p: "log_icon STYLES_plain = [] \<and> ok_icon STYLES_plain = [] \<and> info_icon STYLES_plain = [] \<and>
    warn_icon STYLES_plain = [] \<and> err_icon STYLES_plain = []"
    "log_color STYLES_plain = [] \<and> ok_color STYLES_plain = [] \<and> info_color STYLES_plain = [] \<and>
    warn_color STYLES_plain = [] \<and> err_color STYLES_plain = []"
    "log_label STYLES_plain \<noteq> [] \<and> ok_label STYLES_plain \<noteq> [] \<and>
    info_label STYLES_plain \<noteq> [] \<and> warn_label STYLES_plain \<noteq> [] \<and>
    err_label STYLES_plain \<noteq> []"
    by (simp_all add: STYLES_plain_def LogStyle_new_def asc_simps)
  have m: "log_label STYLES_minimal = [] \<and> ok_label STYLES_minimal = [] \<and>
    info_label STYLES_minimal = [] \<and> warn_label STYLES_minimal = [] \<and>
    err_label STYLES_minimal = []"
    "log_icon STYLES_minimal \<noteq> [] \<and> ok_icon STYLES_minimal \<noteq> [] \<and>
    info_icon STYLES_minimal \<noteq> [] \<and> warn_icon STYLES_minimal \<noteq> [] \<and>
    err_icon STYLES_minimal \<noteq> []"
    by (simp_all add: STYLES_minimal_def LogStyle_new_def asc_simps)
  have c: "log_icon STYLES_classic = [] \<and> ok_icon STYLES_classic = [] \<and>
    info_icon STYLES_classic = [] \<and> warn_icon STYLES_classic = [] \<and>
    err_icon STYLES_classic = []"
    "log_label STYLES_classic \<noteq> [] \<and> ok_label STYLES_classic \<noteq> [] \<and>
    info_label STYLES_classic \<noteq> [] \<and> warn_label STYLES_classic \<noteq> [] \<and>
    err_label STYLES_classic \<noteq> []"
    by (simp_all add: STYLES_classic_def LogStyle_new_def asc_simps)
  from d l p m c show ?thesis by blast
qed

section \<open>The plain preset\<close>

lemma plain_fields:
  "log_icon STYLES_plain = []" "ok_icon STYLES_plain = []" "info_icon STYLES_plain = []"
  "warn_icon STYLES_plain = []" "err_icon STYLES_plain = []"
  "log_color STYLES_plain = []" "ok_color STYLES_plain = []" "info_color STYLES_plain = []"
  "warn_color STYLES_plain = []" "err_color STYLES_plain = []"
  "log_label STYLES_plain = asc ''[Log]''" "ok_label STYLES_plain = asc ''[OK]''"
  "info_label STYLES_plain = asc ''[Info]''" "warn_label STYLES_plain = asc ''[Warn]''"
  "err_label STYLES_plain = asc ''[Error]''"
  by (simp_all add: STYLES_plain_def LogStyle_new_def)

lemma asc_not_Nil: "asc (c # cs) \<noteq> []"
  by (simp add: asc_def)

text \<open>
  Claim C6, amended. A logger with the \<open>plain\<close> preset writes, for every list of message
  parts and whatever its colour and icon flags are, the label of the kind (\<open>[Log]\<close>,
  \<open>[OK]\<close>, \<open>[Info]\<close>, \<open>[Warn]\<close>, \<open>[Error]\<close>), one space, the message parts joined by
  single spaces and a newline: no icon, no colour code, no reset code. For \<open>log\<close> and
  \<open>info\<close> this is the line when \<open>debug\<close> is true.
\<close>

theorem plain_preset_lines:
  "emitted (out L) w (Log_log (L\<lparr>style := STYLES_plain, debug := True\<rparr>) msg w) =
     [asc ''[Log] '' @ Log_fmt L msg @ [10]] \<and>
   emitted (out L) w (Log_ok (L\<lparr>style := STYLES_plain\<rparr>) msg w) =
     [asc ''[OK] '' @ Log_fmt L msg @ [10]] \<and>
   emitted (out L) w (Log_info (L\<lparr>style := STYLES_plain, debug := True\<rparr>) msg w) =
     [asc ''[Info] '' @ Log_fmt L msg @ [10]] \<and>
   emitted (out L) w (Log_warn (L\<lparr>style := STYLES_plain\<rparr>) msg w) =
     [asc ''[Warn] '' @ Log_fmt L msg @ [10]] \<and>
   emitted (err_stream L) w (Log_err (L\<lparr>style := STYLES_plain\<rparr>) msg w) =
     [asc ''[Error] '' @ Log_fmt L msg @ [10]]"
proof -
  have a: "emitted (out L) w (Log_log (L\<lparr>style := STYLES_plain, debug := True\<rparr>) msg w) =
     [asc ''[Log] '' @ Log_fmt L msg @ [10]]"
    by (simp add: Log_log_def Log_prefix_def Let_def plain_fields strip_labels
        Log_write_emitted coloured_def asc_not_Nil)
       (simp add: asc_simps)
  have b: "emitted (out L) w (Log_ok (L\<lparr>style := STYLES_plain\<rparr>) msg w) =
     [asc ''[OK] '' @ Log_fmt L msg @ [10]]"
    by (simp add: Log_ok_def Log_prefix_def Let_def plain_fields strip_labels
        Log_write_emitted coloured_def asc_not_Nil)
       (simp add: asc_simps)
  have c: "emitted (out L) w (Log_info (L\<lparr>style := STYLES_plain, debug := True\<rparr>) msg w) =
     [asc ''[Info] '' @ Log_fmt L msg @ [10]]"
    by (simp add: Log_info_def Log_prefix_def Let_def plain_fields strip_labels
        Log_write_emitted coloured_def asc_not_Nil)
       (simp add: asc_simps)
  have d: "emitted (out L) w (Log_warn (L\<lparr>style := STYLES_plain\<rparr>) msg w) =
     [asc ''[Warn] '' @ Log_fmt L msg @ [10]]"
    by (simp add: Log_warn_def Log_prefix_def Let_def plain_fields strip_labels
        Log_write_emitted coloured_def asc_not_Nil)
       (simp add: asc_simps)
  have e: "emitted (err_stream L) w (Log_err (L\<lparr>style := STYLES_plain\<rparr>) msg w) =
     [asc ''[Error] '' @ Log_fmt L msg @ [10]]"
    by (simp add: Log_err_def Log_prefix_def Let_def plain_fields strip_labels
        Log_write_emitted coloured_def asc_not_Nil)
       (simp add: asc_simps)
  from a b c d e show ?thesis by blast
qed

text \<open>
  The \<open>plain\<close> preset keeps the default labels, so its lines have a prefix: the logger
  built with style \<open>"plain"\<close> writes \<open>"[OK] hi"\<close> for \<open>ok("hi")\<close>, not \<open>"hi"\<close>.
\<close>

theorem plain_preset_counterexample:
  "Log_init False False True True (StyleName (asc ''plain'')) 1 2 Map.empty tty_store =
     Inr plain_logger \<and>
   emitted 1 tty_store (Log_ok plain_logger [PStr (asc ''hi'')] tty_store) =
     [asc ''[OK] hi'' @ [10]] \<and>
   emitted 1 tty_store (Log_ok plain_logger [PStr (asc ''hi'')] tty_store) \<noteq>
     [Log_fmt plain_logger [PStr (asc ''hi'')] @ [10]]"
proof -
  have a: "Log_init False False True True (StyleName (asc ''plain'')) 1 2 Map.empty tty_store =
     Inr plain_logger"
    by (simp add: Log_init_def Let_def get_style_no_overrides dict_get_def STYLES_lookup
        getenv_def lower_def is_tty_def tty_store_def plain_logger_def asc_simps)
  have b: "emitted 1 tty_store (Log_ok plain_logger [PStr (asc ''hi'')] tty_store) =
     [asc ''[OK] hi'' @ [10]]"
    by (simp add: plain_logger_def Log_ok_def Log_prefix_def Let_def plain_fields strip_labels
        Log_write_emitted coloured_def asc_not_Nil Log_fmt_def)
       (simp add: asc_simps)
  have c: "Log_fmt plain_logger [PStr (asc ''hi'')] = asc ''hi''"
    by (simp add: Log_fmt_def)
  from a b c show ?thesis by (simp add: asc_simps)
qed

section \<open>Construction\<close>

lemma style_arg_resolves:
  "\<exists>s. (case st of StyleName name \<Rightarrow> get_style name []
          | StyleValue s \<Rightarrow> Inr s
          | StyleNone \<Rightarrow> getitem STYLES (asc ''default'')) = Inr s"
  by (cases st) (simp_all add: get_style_no_overrides getitem_default)

lemma Log_init_total:
  "\<exists>s. Log_init d v uc ui st so se env w =
     Inr \<lparr> debug = (d \<or> lower (getenv env (asc ''DEBUG_LOGS'') []) \<in>
                      {asc ''1'', asc ''true'', asc ''yes''}),
           style = s, use_color = (uc \<and> is_tty (w so)), use_icons = (ui \<and> is_tty (w so)),
           out = so, err_stream = se \<rparr>"
proof -
  obtain s where "(case st of StyleName name \<Rightarrow> get_style name []
          | StyleValue s \<Rightarrow> Inr s
          | StyleNone \<Rightarrow> getitem STYLES (asc ''default'')) = Inr s"
    using style_arg_resolves by blast
  then show ?thesis by (simp add: Log_init_def Let_def)
qed

lemma Log_init_err_stream:
  "Log_init d v uc ui st so se env w = Inr L \<Longrightarrow>
   Log_init d v uc ui st so se' env w = Inr (L\<lparr>err_stream := se'\<rparr>)"
  by (auto simp add: Log_init_def Let_def split: sum.splits)

lemma bare_emitted:
  "\<not> use_color L \<Longrightarrow> \<not> use_icons L \<Longrightarrow>
   emitted h w (Log_write L h (Log_prefix L icon label) c msg w) = [bare_line label msg]"
  by (simp add: Log_write_emitted coloured_def Log_prefix_def Let_def bare_line_def Log_fmt_def)

lemma not_tty: "isatty_result s \<noteq> Returns True \<Longrightarrow> \<not> is_tty s"
  by (cases "isatty_result s") (auto simp add: is_tty_def)

text \<open>
  Claim C7. An \<open>isatty()\<close> that raises is answered as not interactive. When the out
  stream is not interactive (\<open>isatty()\<close> returns false or raises), construction
  succeeds with \<open>use_color\<close> and \<open>use_icons\<close> false, whatever flags were requested, and
  from then on every call writes the bare line of its kind: trimmed label, message and
  newline, with no colour code and no reset code around it.
\<close>

theorem non_tty_no_colour:
  assumes "isatty_result (w so) \<noteq> Returns True"
  shows "is_tty (s\<lparr>isatty_result := Raises\<rparr>) = False \<and>
    (\<exists>L. Log_init d v uc ui st so se env w = Inr L \<and> \<not> use_color L \<and> \<not> use_icons L \<and>
      (\<forall>msg w'.
         emitted so w' (Log_log L msg w') =
           (if debug L then [bare_line (log_label (style L)) msg] else []) \<and>
         emitted so w' (Log_ok L msg w') = [bare_line (ok_label (style L)) msg] \<and>
         emitted so w' (Log_info L msg w') =
           (if debug L then [bare_line (info_label (style L)) msg] else []) \<and>
         emitted so w' (Log_warn L msg w') = [bare_line (warn_label (style L)) msg] \<and>
         emitted se w' (Log_err L msg w') = [bare_line (err_label (style L)) msg]))"
proof -
  have r: "is_tty (s\<lparr>isatty_result := Raises\<rparr>) = False"
    by (simp add: is_tty_def)
  have n: "\<not> is_tty (w so)"
    using assms by (rule not_tty)
  obtain sty where L: "Log_init d v uc ui st so se env w =
     Inr \<lparr> debug = (d \<or> lower (getenv env (asc ''DEBUG_LOGS'') []) \<in>
                      {asc ''1'', asc ''true'', asc ''yes''}),
           style = sty, use_color = (uc \<and> is_tty (w so)), use_icons = (ui \<and> is_tty (w so)),
           out = so, err_stream = se \<rparr>"
    using Log_init_total by blast
  define L where "L = \<lparr> debug = (d \<or> lower (getenv env (asc ''DEBUG_LOGS'') []) \<in>
                      {asc ''1'', asc ''true'', asc ''yes''}),
           style = sty, use_color = (uc \<and> is_tty (w so)), use_icons = (ui \<and> is_tty (w so)),
           out = so, err_stream = se \<rparr>"
  have c: "\<not> use_color L" and i: "\<not> use_icons L" and o: "out L = so" and e: "err_stream L = se"
    using n by (simp_all add: L_def)
  have "emitted so w' (Log_log L msg w') =
           (if debug L then [bare_line (log_label (style L)) msg] else [])" for msg w'
    using bare_emitted [OF c i] o by (simp add: Log_log_def emitted_same)
  moreover have "emitted so w' (Log_ok L msg w') = [bare_line (ok_label (style L)) msg]" for msg w'
    using bare_emitted [OF c i] o by (simp add: Log_ok_def)
  moreover have "emitted so w' (Log_info L msg w') =
           (if debug L then [bare_line (info_label (style L)) msg] else [])" for msg w'
    using bare_emitted [OF c i] o by (simp add: Log_info_def emitted_same)
  moreover have "emitted so w' (Log_warn L msg w') = [bare_line (warn_label (style L)) msg]" for msg w'
    using bare_emitted [OF c i] o by (simp add: Log_warn_def)
  moreover have "emitted se w' (Log_err L msg w') = [bare_line (err_label (style L)) msg]" for msg w'
    using bare_emitted [OF c i] e by (simp add: Log_err_def)
  ultimately show ?thesis
    using r c i L unfolding L_def [symmetric] by blast
qed

text \<open>The hypothesis of C7 holds for a logger built over a pipe.\<close>

theorem non_tty_no_colour_witness:
  "isatty_result (pipe_store 1) \<noteq> Returns True \<and>
   (\<exists>L. Log_init False False True True StyleNone 1 2 Map.empty pipe_store = Inr L \<and>
        \<not> use_color L \<and> \<not> use_icons L \<and>
        emitted 1 pipe_store (Log_ok L [PStr (asc ''hi'')] pipe_store) =
          [bare_line (ok_label (style L)) [PStr (asc ''hi'')]])"
proof -
  have h: "isatty_result (pipe_store 1) \<noteq> Returns True"
    by (simp add: pipe_store_def)
  from non_tty_no_colour [where w = pipe_store and so = 1 and d = False and v = False and uc = True
      and ui = True and st = StyleNone and se = 2 and env = Map.empty, OF h]
  show ?thesis using h by blast
qed

lemma lower_truthy:
  "lower (asc ''1'') = asc ''1''" "lower (asc ''true'') = asc ''true''"
  "lower (asc ''yes'') = asc ''yes''"
  by (simp_all add: lower_def lower_cp_def asc_simps)

lemma Log_init_debug:
  "map_sum id debug (Log_init d v uc ui st so se env w) =
     Inr (d \<or> lower (getenv env (asc ''DEBUG_LOGS'') []) \<in> {asc ''1'', asc ''true'', asc ''yes''})"
proof -
  obtain s where "Log_init d v uc ui st so se env w =
     Inr \<lparr> debug = (d \<or> lower (getenv env (asc ''DEBUG_LOGS'') []) \<in>
                      {asc ''1'', asc ''true'', asc ''yes''}),
           style = s, use_color = (uc \<and> is_tty (w so)), use_icons = (ui \<and> is_tty (w so)),
           out = so, err_stream = se \<rparr>"
    using Log_init_total by blast
  then show ?thesis by simp
qed

text \<open>
  Claim C8. Construction succeeds and \<open>debug\<close> is the debug flag or-ed with the
  environment: true exactly when the flag is true or \<open>DEBUG_LOGS\<close> is set to a value
  equal, up to case, to \<open>1\<close>, \<open>true\<close> or \<open>yes\<close>. An absent variable and other values such
  as \<open>0\<close> or \<open>on\<close> leave the flag alone.
\<close>

theorem debug_env:
  "map_sum id debug (Log_init d v uc ui st so se env w) =
     Inr (d \<or> (case env (asc ''DEBUG_LOGS'') of
                 None \<Rightarrow> False
               | Some val \<Rightarrow> ci_equal val (asc ''1'') \<or> ci_equal val (asc ''true'') \<or>
                   ci_equal val (asc ''yes''))) \<and>
   map_sum id debug (Log_init d v uc ui st so se Map.empty w) = Inr d \<and>
   map_sum id debug
     (Log_init False v uc ui st so se [asc ''DEBUG_LOGS'' \<mapsto> asc ''1''] w) = Inr True \<and>
   map_sum id debug
     (Log_init False v uc ui st so se [asc ''DEBUG_LOGS'' \<mapsto> asc ''TRUE''] w) = Inr True \<and>
   map_sum id debug
     (Log_init False v uc ui st so se [asc ''DEBUG_LOGS'' \<mapsto> asc ''Yes''] w) = Inr True \<and>
   map_sum id debug
     (Log_init d v uc ui st so se [asc ''DEBUG_LOGS'' \<mapsto> asc ''0''] w) = Inr d \<and>
   map_sum id debug
     (Log_init d v uc ui st so se [asc ''DEBUG_LOGS'' \<mapsto> asc ''on''] w) = Inr d"
proof -
  have a: "map_sum id debug (Log_init d v uc ui st so se env w) =
     Inr (d \<or> (case env (asc ''DEBUG_LOGS'') of
                 None \<Rightarrow> False
               | Some val \<Rightarrow> ci_equal val (asc ''1'') \<or> ci_equal val (asc ''true'') \<or>
                   ci_equal val (asc ''yes'')))"
  proof (cases "env (asc ''DEBUG_LOGS'')")
    case None
    then have "lower (getenv env (asc ''DEBUG_LOGS'') []) = []"
      by (simp add: getenv_def lower_def)
    with None show ?thesis
      by (simp add: Log_init_debug asc_simps)
  next
    case (Some val)
    then have "getenv env (asc ''DEBUG_LOGS'') [] = val"
      by (simp add: getenv_def)
    with Some show ?thesis
      by (simp add: Log_init_debug ci_equal_def lower_truthy)
  qed
  have b: "map_sum id debug (Log_init d v uc ui st so se Map.empty w) = Inr d"
    by (simp add: Log_init_debug getenv_def lower_def asc_simps)
  have c: "map_sum id debug
     (Log_init False v uc ui st so se [asc ''DEBUG_LOGS'' \<mapsto> asc ''1''] w) = Inr True"
    by (simp add: Log_init_debug getenv_def lower_truthy)
  have l1: "lower (asc ''TRUE'') = asc ''true''" and l2: "lower (asc ''Yes'') = asc ''yes''"
    and l3: "lower (asc ''0'') = asc ''0''" and l4: "lower (asc ''on'') = asc ''on''"
    by (simp_all add: lower_def lower_cp_def asc_simps)
  have e: "map_sum id debug
     (Log_init False v uc ui st so se [asc ''DEBUG_LOGS'' \<mapsto> asc ''TRUE''] w) = Inr True"
    by (simp add: Log_init_debug getenv_def l1)
  have f: "map_sum id debug
     (Log_init False v uc ui st so se [asc ''DEBUG_LOGS'' \<mapsto> asc ''Yes''] w) = Inr True"
    by (simp add: Log_init_debug getenv_def l2)
  have g: "map_sum id debug
     (Log_init d v uc ui st so se [asc ''DEBUG_LOGS'' \<mapsto> asc ''0''] w) = Inr d"
    by (simp add: Log_init_debug getenv_def l3) (simp add: asc_simps)
  have h: "map_sum id debug
     (Log_init d v uc ui st so se [asc ''DEBUG_LOGS'' \<mapsto> asc ''on''] w) = Inr d"
    by (simp add: Log_init_debug getenv_def l4) (simp add: asc_simps)
  from a b c e f g h show ?thesis by blast
qed

text \<open>
  Claim C10. Two loggers built from the same arguments but for the err streams \<open>se1\<close>
  and \<open>se2\<close>, whatever \<open>isatty()\<close> does on either, have the same \<open>use_color\<close> and
  \<open>use_icons\<close>, both computed from the out stream alone, and \<open>err\<close> writes the same text
  through both for every list of message parts.
\<close>

theorem err_output_ignores_err_tty:
  "\<exists>L1 L2. Log_init d v uc ui st so se1 env w = Inr L1 \<and>
     Log_init d v uc ui st so se2 env w = Inr L2 \<and>
     err_stream L1 = se1 \<and> err_stream L2 = se2 \<and>
     use_color L1 = (uc \<and> is_tty (w so)) \<and> use_color L2 = (uc \<and> is_tty (w so)) \<and>
     use_icons L1 = (ui \<and> is_tty (w so)) \<and> use_icons L2 = (ui \<and> is_tty (w so)) \<and>
     (\<forall>msg w1 w2. emitted se1 w1 (Log_err L1 msg w1) = emitted se2 w2 (Log_err L2 msg w2))"
proof -
  obtain s where L1: "Log_init d v uc ui st so se1 env w =
     Inr \<lparr> debug = (d \<or> lower (getenv env (asc ''DEBUG_LOGS'') []) \<in>
                      {asc ''1'', asc ''true'', asc ''yes''}),
           style = s, use_color = (uc \<and> is_tty (w so)), use_icons = (ui \<and> is_tty (w so)),
           out = so, err_stream = se1 \<rparr>" (is "_ = Inr ?L1")
    using Log_init_total by blast
  from Log_init_err_stream [OF L1, of se2]
  have L2: "Log_init d v uc ui st so se2 env w = Inr (?L1\<lparr>err_stream := se2\<rparr>)" .
  have "emitted se1 w1 (Log_err ?L1 msg w1) =
      emitted se2 w2 (Log_err (?L1\<lparr>err_stream := se2\<rparr>) msg w2)" for msg w1 w2
    by (simp add: Log_err_def Log_write_emitted coloured_def Log_prefix_def Log_fmt_def)
  with L1 L2 show ?thesis
    by (intro exI [of _ ?L1] exI [of _ "?L1\<lparr>err_stream := se2\<rparr>"]) simp
qed

section \<open>The empty message\<close>

lemma empty_message:
  "p \<noteq> [] \<Longrightarrow>
   emitted h w (Log_write L h p c [] w) = [coloured L c (p @ asc '' '') @ [10]]"
  by (simp add: Log_write_emitted Log_fmt_def)

text \<open>
  Claim C9, amended. When the prefix of a kind is not empty, a call with no message
  part that emits (\<open>ok\<close>, \<open>warn\<close>, \<open>err\<close> always, \<open>log\<close> and \<open>info\<close> when \<open>debug\<close> is true)
  writes the prefix and one space, wrapped in the colour code and the reset code when
  the logger uses colour and the kind has a colour, and then the newline. \<open>log\<close> and
  \<open>info\<close> write nothing when \<open>debug\<close> is false.
\<close>

theorem empty_message_line:
  "(Log_prefix L (log_icon (style L)) (log_label (style L)) \<noteq> [] \<longrightarrow>
      emitted (out L) w (Log_log L [] w) =
        (if debug L
         then [coloured L (log_color (style L))
                 (Log_prefix L (log_icon (style L)) (log_label (style L)) @ asc '' '') @ [10]]
         else [])) \<and>
   (Log_prefix L (ok_icon (style L)) (ok_label (style L)) \<noteq> [] \<longrightarrow>
      emitted (out L) w (Log_ok L [] w) =
        [coloured L (ok_color (style L))
           (Log_prefix L (ok_icon (style L)) (ok_label (style L)) @ asc '' '') @ [10]]) \<and>
   (Log_prefix L (info_icon (style L)) (info_label (style L)) \<noteq> [] \<longrightarrow>
      emitted (out L) w (Log_info L [] w) =
        (if debug L
         then [coloured L (info_color (style L))
                 (Log_prefix L (info_icon (style L)) (info_label (style L)) @ asc '' '') @ [10]]
         else [])) \<and>
   (Log_prefix L (warn_icon (style L)) (warn_label (style L)) \<noteq> [] \<longrightarrow>
      emitted (out L) w (Log_warn L [] w) =
        [coloured L (warn_color (style L))
           (Log_prefix L (warn_icon (style L)) (warn_label (style L)) @ asc '' '') @ [10]]) \<and>
   (Log_prefix L (err_icon (style L)) (err_label (style L)) \<noteq> [] \<longrightarrow>
      emitted (err_stream L) w (Log_err L [] w) =
        [coloured L (err_color (style L))
           (Log_prefix L (err_icon (style L)) (err_label (style L)) @ asc '' '') @ [10]])"
  by (simp add: Log_log_def Log_ok_def Log_info_def Log_warn_def Log_err_def empty_message
      emitted_same)

lemma default_fields:
  "log_label STYLES_default = asc ''[Log]''" "ok_label STYLES_default = asc ''[OK]''"
  "info_label STYLES_default = asc ''[Info]''" "warn_label STYLES_default = asc ''[Warn]''"
  "err_label STYLES_default = asc ''[Error]''"
  "log_color STYLES_default = DIM" "ok_color STYLES_default = OKGREEN"
  "info_color STYLES_default = OKBLUE" "warn_color STYLES_default = WARNING_ORANGE"
  "err_color STYLES_default = FAIL"
  "log_icon STYLES_default = [226, 8364, 162]" "ok_icon STYLES_default = [226, 339, 8230]"
  by (simp_all add: STYLES_default_def LogStyle_new_def)

lemma quiet_prefixes:
  "Log_prefix quiet_logger (log_icon (style quiet_logger)) (log_label (style quiet_logger)) =
     asc ''[Log]''"
  "Log_prefix quiet_logger (ok_icon (style quiet_logger)) (ok_label (style quiet_logger)) =
     asc ''[OK]''"
  "Log_prefix quiet_logger (info_icon (style quiet_logger)) (info_label (style quiet_logger)) =
     asc ''[Info]''"
  "Log_prefix quiet_logger (warn_icon (style quiet_logger)) (warn_label (style quiet_logger)) =
     asc ''[Warn]''"
  "Log_prefix quiet_logger (err_icon (style quiet_logger)) (err_label (style quiet_logger)) =
     asc ''[Error]''"
  by (simp_all add: quiet_logger_def Log_prefix_def Let_def default_fields strip_labels)

text \<open>The five prefixes of a logger with the default style are not empty.\<close>

theorem empty_message_line_witness:
  "Log_init True False True True StyleNone 1 2 Map.empty pipe_store = Inr quiet_logger \<and>
   Log_prefix quiet_logger (log_icon (style quiet_logger)) (log_label (style quiet_logger)) \<noteq> [] \<and>
   Log_prefix quiet_logger (ok_icon (style quiet_logger)) (ok_label (style quiet_logger)) \<noteq> [] \<and>
   Log_prefix quiet_logger (info_icon (style quiet_logger)) (info_label (style quiet_logger)) \<noteq> [] \<and>
   Log_prefix quiet_logger (warn_icon (style quiet_logger)) (warn_label (style quiet_logger)) \<noteq> [] \<and>
   Log_prefix quiet_logger (err_icon (style quiet_logger)) (err_label (style quiet_logger)) \<noteq> [] \<and>
   emitted 1 pipe_store (Log_log quiet_logger [] pipe_store) = [asc ''[Log] '' @ [10]] \<and>
   emitted 1 pipe_store (Log_ok quiet_logger [] pipe_store) = [asc ''[OK] '' @ [10]] \<and>
   emitted 1 pipe_store (Log_info quiet_logger [] pipe_store) = [asc ''[Info] '' @ [10]] \<and>
   emitted 1 pipe_store (Log_warn quiet_logger [] pipe_store) = [asc ''[Warn] '' @ [10]] \<and>
   emitted 2 pipe_store (Log_err quiet_logger [] pipe_store) = [asc ''[Error] '' @ [10]]"
proof -
  have q: "debug quiet_logger" "\<not> use_color quiet_logger" "out quiet_logger = 1"
    "err_stream quiet_logger = 2"
    by (simp_all add: quiet_logger_def)
  show ?thesis
    apply (rule conjI [OF quiet_logger_built])
    using empty_message_line [of quiet_logger pipe_store]
    by (simp add: quiet_prefixes q coloured_def asc_not_Nil) (simp add: asc_simps)
qed

text \<open>
  As worded the claim fails twice: with \<open>debug\<close> false \<open>log()\<close> writes nothing although
  its prefix is not empty, and with colour on \<open>ok()\<close> writes the colour code before the
  prefix and the reset code between the space and the newline.
\<close>

theorem empty_message_line_counterexample:
  "Log_init False False True True StyleNone 1 2 Map.empty tty_store = Inr demo_logger \<and>
   Log_prefix demo_logger (log_icon (style demo_logger)) (log_label (style demo_logger)) \<noteq> [] \<and>
   emitted 1 tty_store (Log_log demo_logger [] tty_store) = [] \<and>
   Log_prefix demo_logger (ok_icon (style demo_logger)) (ok_label (style demo_logger)) =
     [226, 339, 8230] @ asc '' [OK]'' \<and>
   emitted 1 tty_store (Log_ok demo_logger [] tty_store) =
     [OKGREEN @ [226, 339, 8230] @ asc '' [OK] '' @ ENDC @ [10]] \<and>
   emitted 1 tty_store (Log_ok demo_logger [] tty_store) \<noteq>
     [Log_prefix demo_logger (ok_icon (style demo_logger)) (ok_label (style demo_logger)) @
      asc '' '' @ [10]]"
proof -
  have p1: "Log_prefix demo_logger (log_icon (style demo_logger)) (log_label (style demo_logger))
      \<noteq> []"
    by (simp add: demo_logger_def Log_prefix_def Let_def default_fields strip_def isspace_def
        asc_simps)
  have e1: "emitted 1 tty_store (Log_log demo_logger [] tty_store) = []"
    by (simp add: demo_logger_def Log_log_def emitted_same)
  have p2: "Log_prefix demo_logger (ok_icon (style demo_logger)) (ok_label (style demo_logger)) =
     [226, 339, 8230] @ asc '' [OK]''"
    by (simp add: demo_logger_def Log_prefix_def Let_def default_fields strip_def isspace_def
        asc_simps)
  have e2: "emitted 1 tty_store (Log_ok demo_logger [] tty_store) =
     [coloured demo_logger OKGREEN (([226, 339, 8230] @ asc '' [OK]'') @ asc '' '') @ [10]]"
    unfolding Log_ok_def p2
    by (simp add: demo_logger_def empty_message asc_simps default_fields)
  have e3: "coloured demo_logger OKGREEN (([226, 339, 8230] @ asc '' [OK]'') @ asc '' '') =
     OKGREEN @ [226, 339, 8230] @ asc '' [OK] '' @ ENDC"
    by (simp add: coloured_def demo_logger_def OKGREEN_def asc_simps)
  have n: "OKGREEN @ [226, 339, 8230] @ asc '' [OK] '' @ ENDC @ [10] \<noteq>
     ([226, 339, 8230] @ asc '' [OK]'') @ asc '' '' @ [10]"
    by (simp add: OKGREEN_def)
  from demo_logger_built p1 e1 p2 e2 e3 n show ?thesis by simp
qed

end
